theory Spec2Isabelle
  imports Complex_Main
begin

section \<open>One-dimensional elastic dislocation modelling of GNSS velocities\<close>

text \<open>
  The notebook \<^verbatim>\<open>ex01_1D_slip_rate_inversion_gnss.ipynb\<close> projects GNSS stations and
  their velocities onto a profile across a fault, evaluates the arctangent model of
  interseismic strike-slip and searches a grid of slip rates and locking depths for the
  smallest penalty. The embedding reads numpy's float64 values as real numbers and a
  one-dimensional array as a list. Rounding, infinities and signed zeros are outside this
  reading; numpy's division by zero gives \<open>inf\<close> or \<open>nan\<close> where HOL's gives \<open>0\<close>, so a
  statement that divides carries the hypothesis that the divisor is not zero. The one
  \<open>nan\<close> the notebook can produce from finite data with nonzero divisors, the mean of an
  empty array, is modelled as \<open>None\<close>. Arrays that numpy combines elementwise or multiplies
  must have one shape, or numpy raises; the lists here are combined by \<open>zip\<close>, and a
  statement about them carries the hypothesis that their lengths agree.

  The numbers of grid values are the one place where a result depends on a float64 value
  discontinuously: \<^verbatim>\<open>round(1+(s_max-s_min)/s_step)\<close> rounds what the three float64
  operations give, which can lie on the other side of a half from the real value. There
  the rounding of each operation to the nearest float64, ties to the even significand,
  is written out, and the configuration values are read as float64 values.
\<close>

subsection \<open>The numpy operations the notebook uses\<close>

definition np_divide :: "real list \<Rightarrow> real \<Rightarrow> real list" where
  \<comment> \<open>\<^verbatim>\<open>a / d\<close>, an array by a scalar\<close>
  "np_divide xs d = map (\<lambda>x. x / d) xs"

definition np_arctan :: "real list \<Rightarrow> real list" where
  "np_arctan xs = map arctan xs"

definition np_multiply :: "real \<Rightarrow> real list \<Rightarrow> real list" where
  \<comment> \<open>\<^verbatim>\<open>c * a\<close>, a scalar times an array\<close>
  "np_multiply c xs = map (\<lambda>x. c * x) xs"

definition np_add :: "real list \<Rightarrow> real \<Rightarrow> real list" where
  \<comment> \<open>\<^verbatim>\<open>a + c\<close>, an array plus a scalar\<close>
  "np_add xs c = map (\<lambda>x. x + c) xs"

definition np_subtract :: "real list \<Rightarrow> real list \<Rightarrow> real list" where
  \<comment> \<open>\<^verbatim>\<open>a - b\<close> on arrays of one shape\<close>
  "np_subtract xs ys = map2 (-) xs ys"

definition np_subtract_scalar :: "real list \<Rightarrow> real \<Rightarrow> real list" where
  \<comment> \<open>\<^verbatim>\<open>a - c\<close>, an array minus a scalar\<close>
  "np_subtract_scalar xs c = map (\<lambda>x. x - c) xs"

definition np_square :: "real list \<Rightarrow> real list" where
  \<comment> \<open>\<^verbatim>\<open>a**2\<close>\<close>
  "np_square xs = map (\<lambda>x. x\<^sup>2) xs"

definition np_diag :: "real list \<Rightarrow> real list list" where
  \<comment> \<open>\<^verbatim>\<open>np.diag(v)\<close>: the square matrix, as a list of rows, with \<open>v\<close> on its diagonal\<close>
  "np_diag v = map (\<lambda>i. map (\<lambda>j. if i = j then v ! i else 0) [0..<length v]) [0..<length v]"

definition ncols :: "real list list \<Rightarrow> nat" where
  "ncols M = (case M of [] \<Rightarrow> 0 | row # _ \<Rightarrow> length row)"

definition matmul_vec_mat :: "real list \<Rightarrow> real list list \<Rightarrow> real list" where
  \<comment> \<open>\<^verbatim>\<open>np.matmul(r, M)\<close> for a one-dimensional \<open>r\<close>: entry \<open>j\<close> is \<open>\<Sum>k. r[k] * M[k][j]\<close>\<close>
  "matmul_vec_mat r M = map (\<lambda>j. sum_list (map2 (\<lambda>a row. a * row ! j) r M)) [0..<ncols M]"

definition matmul_vec_vec :: "real list \<Rightarrow> real list \<Rightarrow> real" where
  \<comment> \<open>\<^verbatim>\<open>np.matmul(a, b)\<close> for two one-dimensional arrays: the inner product
     (\<^verbatim>\<open>b.T\<close> of a one-dimensional array is \<open>b\<close>)\<close>
  "matmul_vec_vec a b = sum_list (map2 (*) a b)"

definition np_add_arrays :: "real list \<Rightarrow> real list \<Rightarrow> real list" where
  \<comment> \<open>\<^verbatim>\<open>a + b\<close> on arrays of one shape\<close>
  "np_add_arrays xs ys = map2 (+) xs ys"

definition np_sqrt :: "real list \<Rightarrow> real list" where
  "np_sqrt xs = map sqrt xs"

definition np_arctan2 :: "real \<Rightarrow> real \<Rightarrow> real" where
  \<comment> \<open>\<^verbatim>\<open>np.arctan2(y, x)\<close>: the angle of the point \<open>(x, y)\<close> in \<open>(-\<pi>, \<pi>]\<close>\<close>
  "np_arctan2 y x =
     (if 0 < x then arctan (y / x)
      else if x < 0 then (if 0 \<le> y then arctan (y / x) + pi else arctan (y / x) - pi)
      else if 0 < y then pi / 2
      else if y < 0 then - (pi / 2)
      else 0)"

definition np_degrees :: "real \<Rightarrow> real" where
  "np_degrees r = r * (180 / pi)"

definition np_radians :: "real \<Rightarrow> real" where
  "np_radians d = d * (pi / 180)"

definition np_mean :: "real list \<Rightarrow> real option" where
  \<comment> \<open>\<^verbatim>\<open>np.mean(a)\<close>; the mean of an empty array is \<open>nan\<close> (with a warning), here \<open>None\<close>\<close>
  "np_mean xs = (if xs = [] then None else Some (sum_list xs / real (length xs)))"

subsection \<open>Forward model\<close>

definition v_forward :: "real list \<Rightarrow> real \<Rightarrow> real \<Rightarrow> real \<Rightarrow> real list" where
  \<comment> \<open>\<^verbatim>\<open>v_forward = (s/np.pi)*np.arctan(x_data/D)+v_shift\<close>\<close>
  "v_forward x_data s D v_shift =
     np_add (np_multiply (s / pi) (np_arctan (np_divide x_data D))) v_shift"

definition v_forward_unshifted :: "real list \<Rightarrow> real \<Rightarrow> real \<Rightarrow> real list" where
  \<comment> \<open>the grid search's \<^verbatim>\<open>v_forward = (sv[i,j]/np.pi)*np.arctan(x_data/Dv[i,j])\<close>\<close>
  "v_forward_unshifted x_data s D = np_multiply (s / pi) (np_arctan (np_divide x_data D))"

definition forward_model_spec :: "real \<Rightarrow> real \<Rightarrow> real \<Rightarrow> real \<Rightarrow> real" where
  \<comment> \<open>the specification's formula \<open>v(x) = (s/\<pi>) \<cdot> atan(x/D) + offset\<close>, for comparison\<close>
  "forward_model_spec x s D offset = (s / pi) * arctan (x / D) + offset"

subsection \<open>Misfit\<close>

definition wrss_matmul :: "real list \<Rightarrow> real list \<Rightarrow> real" where
  \<comment> \<open>\<^verbatim>\<open>np.matmul(np.matmul(r, np.diag(v_err**2)), r.T)\<close> for a residual array \<open>r\<close>\<close>
  "wrss_matmul r v_err = matmul_vec_vec (matmul_vec_mat r (np_diag (np_square v_err))) r"

definition WRSS :: "real list \<Rightarrow> real list \<Rightarrow> real list \<Rightarrow> real" where
  \<comment> \<open>\<^verbatim>\<open>WRSS = np.matmul(np.matmul((v_data-v_forward), np.diag(v_err**2)), (v_data-v_forward).T)\<close>\<close>
  "WRSS v_data v_err v_fwd = wrss_matmul (np_subtract v_data v_fwd) v_err"

definition WRSS_spec :: "real list \<Rightarrow> real list \<Rightarrow> real list \<Rightarrow> real" where
  \<comment> \<open>the specification's penalty \<open>\<Sum>\<^sub>i w\<^sub>i \<cdot> (v\<^sub>o\<^sub>b\<^sub>s\<^sub>,\<^sub>i - v\<^sub>m\<^sub>o\<^sub>d\<^sub>e\<^sub>l\<^sub>,\<^sub>i)\<^sup>2\<close> with \<open>w\<^sub>i = 1/\<sigma>\<^sub>i\<^sup>2\<close>,
     for comparison\<close>
  "WRSS_spec v_obs sigma v_model =
     sum_list (map (\<lambda>(obs, sg, mdl). (1 / sg\<^sup>2) * (obs - mdl)\<^sup>2) (zip v_obs (zip sigma v_model)))"

subsection \<open>Fault geometry and the profile\<close>

text \<open>
  \<^verbatim>\<open>utm.from_latlon\<close> is an external library: the planar (easting, northing) coordinates
  it returns for the fault vertices and for the stations are the inputs here.
\<close>

record fault_geometry =
  fault_dx :: real
  fault_dy :: real
  fault_length :: real
  fault_strike :: real

definition fault_geometry_of :: "real \<times> real \<Rightarrow> real \<times> real \<Rightarrow> fault_geometry" where
  \<comment> \<open>the vector between the vertices, its length, the unit vector and the strike in degrees\<close>
  "fault_geometry_of fault_vertex_utm1 fault_vertex_utm2 =
     (let dx = fst fault_vertex_utm2 - fst fault_vertex_utm1;
          dy = snd fault_vertex_utm2 - snd fault_vertex_utm1;
          len = sqrt (dx\<^sup>2 + dy\<^sup>2);
          ux = dx / len;
          uy = dy / len
      in \<lparr>fault_dx = ux, fault_dy = uy, fault_length = len,
          fault_strike = np_degrees (np_arctan2 ux uy)\<rparr>)"

definition prof_dx :: "real \<Rightarrow> real" where
  \<comment> \<open>\<^verbatim>\<open>prof_dx=np.sin(np.radians(fault_strike-90))\<close>\<close>
  "prof_dx strike = sin (np_radians (strike - 90))"

definition prof_dy :: "real \<Rightarrow> real" where
  \<comment> \<open>\<^verbatim>\<open>prof_dy=np.cos(np.radians(fault_strike-90))\<close>\<close>
  "prof_dy strike = cos (np_radians (strike - 90))"

definition box_vertices_utm ::
  "real \<times> real \<Rightarrow> real \<times> real \<Rightarrow> real \<Rightarrow> real \<Rightarrow> real \<Rightarrow> (real \<times> real) list" where
  \<comment> \<open>the four corners of the selection box, \<open>half_length\<close> kilometres either side of the fault\<close>
  "box_vertices_utm v1 v2 half_length pdx pdy =
     [(fst v1 - half_length * 1000 * pdx, snd v1 - half_length * 1000 * pdy),
      (fst v1 + half_length * 1000 * pdx, snd v1 + half_length * 1000 * pdy),
      (fst v2 + half_length * 1000 * pdx, snd v2 + half_length * 1000 * pdy),
      (fst v2 - half_length * 1000 * pdx, snd v2 - half_length * 1000 * pdy)]"

definition mean2 :: "real \<Rightarrow> real \<Rightarrow> real" where
  \<comment> \<open>\<^verbatim>\<open>np.mean\<close> of a two-element slice\<close>
  "mean2 a b = (a + b) / 2"

definition prof_vertices_utm :: "(real \<times> real) list \<Rightarrow> (real \<times> real) list" where
  \<comment> \<open>the ends of the profile line: the midpoints of box edges 0-3 and 1-2\<close>
  "prof_vertices_utm box =
     [(mean2 (fst (box ! 0)) (fst (box ! 3)), mean2 (snd (box ! 0)) (snd (box ! 3))),
      (mean2 (fst (box ! 1)) (fst (box ! 2)), mean2 (snd (box ! 1)) (snd (box ! 2)))]"

definition profile_origin_utm :: "(real \<times> real) list \<Rightarrow> real \<times> real" where
  \<comment> \<open>\<^verbatim>\<open>np.array([np.mean(prof_vertices_utm[:,0]),np.mean(prof_vertices_utm[:,1])])\<close>\<close>
  "profile_origin_utm pv =
     (mean2 (fst (pv ! 0)) (fst (pv ! 1)), mean2 (snd (pv ! 0)) (snd (pv ! 1)))"

definition gnss_position :: "(real \<times> real) list \<Rightarrow> real \<times> real \<Rightarrow> (real \<times> real) list" where
  \<comment> \<open>station positions with respect to the profile origin\<close>
  "gnss_position selected_gnss_utm origin =
     map (\<lambda>(e, n). (e - fst origin, n - snd origin)) selected_gnss_utm"

definition dot_rows :: "(real \<times> real) list \<Rightarrow> real \<times> real \<Rightarrow> real list" where
  \<comment> \<open>\<^verbatim>\<open>a.dot(uv)\<close> for an array of two-column rows and a two-element vector\<close>
  "dot_rows rows uv = map (\<lambda>(a, b). matmul_vec_vec [a, b] [fst uv, snd uv]) rows"

definition x_data_of ::
  "real \<times> real \<Rightarrow> real \<times> real \<Rightarrow> real \<Rightarrow> (real \<times> real) list \<Rightarrow> real list" where
  \<comment> \<open>\<^verbatim>\<open>x_data = gnss_position.dot(prof_uv)/1000\<close>, with everything it is computed from\<close>
  "x_data_of fault_vertex_utm1 fault_vertex_utm2 half_length selected_gnss_utm =
     (let g = fault_geometry_of fault_vertex_utm1 fault_vertex_utm2;
          pdx = prof_dx (fault_strike g);
          pdy = prof_dy (fault_strike g);
          box = box_vertices_utm fault_vertex_utm1 fault_vertex_utm2 half_length pdx pdy;
          origin = profile_origin_utm (prof_vertices_utm box);
          prof_uv = (pdx, pdy)
      in np_divide (dot_rows (gnss_position selected_gnss_utm origin) prof_uv) 1000)"

subsection \<open>Fault-parallel velocities\<close>

record station =
  longitude :: real
  latitude :: real
  e_velocity :: real
  n_velocity :: real
  e_vel_error :: real
  n_vel_error :: real
  correlation :: real

definition v_data_of :: "station list \<Rightarrow> real \<times> real \<Rightarrow> real list" where
  \<comment> \<open>\<^verbatim>\<open>v_data=selected_gnss[:,[2,3]].dot(fault_uv)\<close>\<close>
  "v_data_of selected_gnss fault_uv =
     dot_rows (map (\<lambda>st. (e_velocity st, n_velocity st)) selected_gnss) fault_uv"

definition v_err_of :: "station list \<Rightarrow> real \<times> real \<Rightarrow> real list" where
  \<comment> \<open>\<^verbatim>\<open>v_err=np.sqrt((selected_gnss[:,4]*fault_uv[0])**2+(selected_gnss[:,5]*fault_uv[1])**2)\<close>\<close>
  "v_err_of selected_gnss fault_uv =
     np_sqrt (np_add_arrays
       (np_square (np_multiply (fst fault_uv) (map e_vel_error selected_gnss)))
       (np_square (np_multiply (snd fault_uv) (map n_vel_error selected_gnss))))"

subsection \<open>Grid search\<close>

datatype error = ZeroDivisionError | OverflowError | ValueError

record grid_config =
  s_min :: real
  s_max :: real
  s_step :: real
  D_min :: real
  D_max :: real
  D_step :: real

definition py_round :: "real \<Rightarrow> int" where
  \<comment> \<open>Python's \<^verbatim>\<open>round\<close> of a float: to the nearest integer, a half to the even neighbour\<close>
  "py_round x =
     (let f = \<lfloor>x\<rfloor>; d = x - of_int f
      in if d < 1 / 2 then f else if 1 / 2 < d then f + 1 else if even f then f else f + 1)"

definition pow2 :: "int \<Rightarrow> real" where
  "pow2 e = (if 0 \<le> e then 2 ^ nat e else 1 / 2 ^ nat (- e))"

definition float64_quantum :: "real \<Rightarrow> real" where
  \<comment> \<open>the spacing of the float64 values around \<open>x\<close>: 53 significant bits, and the fixed
     spacing \<open>pow2 (- 1074)\<close> of the subnormal values below \<open>pow2 (- 1022)\<close>\<close>
  "float64_quantum x = pow2 (max \<lfloor>log 2 \<bar>x\<bar>\<rfloor> (- 1022) - 52)"

definition float64_round :: "real \<Rightarrow> real" where
  \<comment> \<open>the float64 value nearest to \<open>x\<close>, a tie going to the even significand, before any
     overflow\<close>
  "float64_round x =
     (if x = 0 then 0 else of_int (py_round (x / float64_quantum x)) * float64_quantum x)"

definition float64_overflows :: "real \<Rightarrow> bool" where
  \<comment> \<open>a rounded result of this magnitude is \<open>inf\<close> in float64\<close>
  "float64_overflows y \<longleftrightarrow> 2 ^ 1024 \<le> \<bar>y\<bar>"

definition float64_expression :: "real \<Rightarrow> real \<Rightarrow> real \<Rightarrow> real option" where
  \<comment> \<open>the float64 value of \<^verbatim>\<open>1+(hi-lo)/step\<close> for a nonzero \<open>step\<close>, each of the three
     operations rounded; \<open>None\<close> is \<open>inf\<close>, which an overflow in any of them leaves in the
     result\<close>
  "float64_expression lo hi step =
     (let d = float64_round (hi - lo);
          q = float64_round (d / step);
          r = float64_round (1 + q)
      in if float64_overflows d \<or> float64_overflows q \<or> float64_overflows r then None
         else Some r)"

definition sample_count :: "real \<Rightarrow> real \<Rightarrow> real \<Rightarrow> error + int" where
  \<comment> \<open>\<^verbatim>\<open>round(1+(hi-lo)/step)\<close>; Python's division by zero raises, and so does its \<^verbatim>\<open>round\<close>
     of \<open>inf\<close>\<close>
  "sample_count lo hi step =
     (if step = 0 then Inl ZeroDivisionError
      else case float64_expression lo hi step of
             None \<Rightarrow> Inl OverflowError
           | Some r \<Rightarrow> Inr (py_round r))"

definition np_linspace :: "real \<Rightarrow> real \<Rightarrow> int \<Rightarrow> error + real list" where
  \<comment> \<open>\<^verbatim>\<open>np.linspace(start, stop, num)\<close>: \<open>num\<close> evenly spaced samples, both ends included;
     a negative \<open>num\<close> raises ValueError and a single sample is \<open>start\<close>\<close>
  "np_linspace start stop num =
     (if num < 0 then Inl ValueError
      else if num = 1 then Inr [start]
      else Inr (map (\<lambda>k. start + real k * ((stop - start) / of_int (num - 1))) [0..<nat num]))"

definition parameter_ranges :: "grid_config \<Rightarrow> error + (real list \<times> real list)" where
  \<comment> \<open>\<^verbatim>\<open>n_s\<close>, \<^verbatim>\<open>s_set\<close>, \<^verbatim>\<open>n_D\<close>, \<^verbatim>\<open>D_set\<close>, in the order the cell computes them\<close>
  "parameter_ranges c =
     (case sample_count (s_min c) (s_max c) (s_step c) of
        Inl e \<Rightarrow> Inl e
      | Inr n_s \<Rightarrow>
     (case np_linspace (s_min c) (s_max c) n_s of
        Inl e \<Rightarrow> Inl e
      | Inr s_set \<Rightarrow>
     (case sample_count (D_min c) (D_max c) (D_step c) of
        Inl e \<Rightarrow> Inl e
      | Inr n_D \<Rightarrow>
     (case np_linspace (D_min c) (D_max c) n_D of
        Inl e \<Rightarrow> Inl e
      | Inr D_set \<Rightarrow> Inr (s_set, D_set)))))"

definition np_meshgrid :: "real list \<Rightarrow> real list \<Rightarrow> real list list \<times> real list list" where
  \<comment> \<open>\<^verbatim>\<open>sv, Dv = np.meshgrid(s_set,D_set)\<close>: \<open>sv[i][j] = s_set[j]\<close> and \<open>Dv[i][j] = D_set[i]\<close>\<close>
  "np_meshgrid s_set D_set =
     (map (\<lambda>_. s_set) D_set, map (\<lambda>D. map (\<lambda>_. D) s_set) D_set)"

definition np_zeros :: "nat \<Rightarrow> nat \<Rightarrow> real list list" where
  "np_zeros rows cols = replicate rows (replicate cols 0)"

definition grid_indices :: "nat \<Rightarrow> nat \<Rightarrow> (nat \<times> nat) list" where
  \<comment> \<open>the pairs \<open>(i, j)\<close> that \<^verbatim>\<open>for i in range(n_D): for j in range(n_s):\<close> visits, in order\<close>
  "grid_indices n_D n_s = concat (map (\<lambda>i. map (\<lambda>j. (i, j)) [0..<n_s]) [0..<n_D])"

definition grid_cell :: "real list \<Rightarrow> real list \<Rightarrow> real list \<Rightarrow> real \<Rightarrow> real \<Rightarrow> real" where
  \<comment> \<open>the body of the loop: the model without shift, the shift as the mean residual, the
     penalty of the shifted residual. The mean is \<open>nan\<close> only for an empty residual array,
     and an empty array minus \<open>nan\<close> is the empty array.\<close>
  "grid_cell x_data v_data v_err s D =
     (let v_fwd = v_forward_unshifted x_data s D;
          resid = np_subtract v_data v_fwd
      in case np_mean resid of
           Some v_shift \<Rightarrow> wrss_matmul (np_subtract_scalar resid v_shift) v_err
         | None \<Rightarrow> wrss_matmul resid v_err)"

definition set_cell :: "real list list \<Rightarrow> nat \<Rightarrow> nat \<Rightarrow> real \<Rightarrow> real list list" where
  \<comment> \<open>\<^verbatim>\<open>W[i,j] = v\<close>\<close>
  "set_cell W i j v = W[i := (W ! i)[j := v]]"

definition penalty_surface ::
  "real list \<Rightarrow> real list \<Rightarrow> real list \<Rightarrow> real list \<Rightarrow> real list \<Rightarrow> real list list" where
  \<comment> \<open>the array \<^verbatim>\<open>WRSS\<close> after the two loops: zeros of the shape of \<open>sv\<close>, every visited
     cell overwritten with its penalty\<close>
  "penalty_surface x_data v_data v_err s_set D_set =
     (let (sv, Dv) = np_meshgrid s_set D_set;
          n_s = length s_set;
          n_D = length D_set
      in fold (\<lambda>(i, j) W. set_cell W i j (grid_cell x_data v_data v_err (sv ! i ! j) (Dv ! i ! j)))
           (grid_indices n_D n_s) (np_zeros n_D n_s))"

definition penalty_loop ::
  "real list \<Rightarrow> real list \<Rightarrow> real list \<Rightarrow> real list \<Rightarrow> real list \<Rightarrow> real list list \<times> nat" where
  \<comment> \<open>the same two loops, counting how many times the body, and with it the penalty, is
     evaluated\<close>
  "penalty_loop x_data v_data v_err s_set D_set =
     (let (sv, Dv) = np_meshgrid s_set D_set;
          n_s = length s_set;
          n_D = length D_set
      in fold (\<lambda>(i, j) (W, evaluations).
                 (set_cell W i j (grid_cell x_data v_data v_err (sv ! i ! j) (Dv ! i ! j)),
                  Suc evaluations))
           (grid_indices n_D n_s) (np_zeros n_D n_s, 0))"

definition np_amin :: "real list list \<Rightarrow> error + real" where
  \<comment> \<open>\<^verbatim>\<open>np.amin(W)\<close>; an array without elements raises ValueError\<close>
  "np_amin W = (case concat W of [] \<Rightarrow> Inl ValueError | x # xs \<Rightarrow> Inr (fold min xs x))"

definition np_where_equal :: "real list list \<Rightarrow> real \<Rightarrow> (nat \<times> nat) list" where
  \<comment> \<open>\<^verbatim>\<open>np.where(W==m)\<close>: the indices of the matching cells, in row-major order\<close>
  "np_where_equal W m = filter (\<lambda>(i, j). W ! i ! j = m) (grid_indices (length W) (ncols W))"

definition take_indices :: "real list list \<Rightarrow> (nat \<times> nat) list \<Rightarrow> real list" where
  \<comment> \<open>\<^verbatim>\<open>A[idx]\<close> for the index arrays of \<^verbatim>\<open>np.where\<close>\<close>
  "take_indices A idx = map (\<lambda>(i, j). A ! i ! j) idx"

definition item :: "real list \<Rightarrow> error + real" where
  \<comment> \<open>\<^verbatim>\<open>a.item()\<close>: the one element of an array of size 1, ValueError for any other size\<close>
  "item a = (case a of [x] \<Rightarrow> Inr x | _ \<Rightarrow> Inl ValueError)"

record grid_search_result =
  s_best :: real
  D_best :: real
  v_shift_best :: "real option"
  WRSS_best :: real

definition best_model ::
  "real list \<Rightarrow> real list \<Rightarrow> real list list \<Rightarrow> real list list \<Rightarrow> real list list \<Rightarrow>
   error + grid_search_result" where
  \<comment> \<open>the cell after the loops: the minimum, where it is attained, the parameters there\<close>
  "best_model x_data v_data sv Dv W =
     (case np_amin W of
        Inl e \<Rightarrow> Inl e
      | Inr best \<Rightarrow>
          (let idx = np_where_equal W best
           in case item (take_indices sv idx) of
                Inl e \<Rightarrow> Inl e
              | Inr s \<Rightarrow>
                  (case item (take_indices Dv idx) of
                     Inl e \<Rightarrow> Inl e
                   | Inr D \<Rightarrow>
                       Inr \<lparr>s_best = s, D_best = D,
                            v_shift_best =
                              np_mean (np_subtract v_data (v_forward_unshifted x_data s D)),
                            WRSS_best = best\<rparr>)))"

definition search_grid ::
  "real list \<Rightarrow> real list \<Rightarrow> real list \<Rightarrow> real list \<Rightarrow> real list \<Rightarrow> error + grid_search_result" where
  \<comment> \<open>the loops and the selection of the best model, for given parameter arrays\<close>
  "search_grid x_data v_data v_err s_set D_set =
     (let (sv, Dv) = np_meshgrid s_set D_set
      in best_model x_data v_data sv Dv (penalty_surface x_data v_data v_err s_set D_set))"

definition grid_search ::
  "grid_config \<Rightarrow> real list \<Rightarrow> real list \<Rightarrow> real list \<Rightarrow> error + grid_search_result" where
  "grid_search c x_data v_data v_err =
     (case parameter_ranges c of
        Inl e \<Rightarrow> Inl e
      | Inr (s_set, D_set) \<Rightarrow> search_grid x_data v_data v_err s_set D_set)"

section \<open>Properties\<close>

subsection \<open>The penalty as a sum over stations\<close>

lemma ncols_np_diag: "ncols (np_diag v) = length v"
  by (cases v) (simp_all add: np_diag_def ncols_def upt_conv_Cons del: upt_Suc)

lemma zip_map_upt:
  "length xs = n \<Longrightarrow> zip xs (map f [0..<n]) = map (\<lambda>k. (xs ! k, f k)) [0..<n]"
  by (rule nth_equalityI) auto

lemma diag_column_sum:
  assumes "length r = length d" and "j < length d"
  shows "sum_list (map2 (\<lambda>a row. a * row ! j) r (np_diag d)) = r ! j * d ! j"
proof -
  let ?n = "length d"
  have "map2 (\<lambda>a row. a * row ! j) r (np_diag d)
        = map (\<lambda>k. r ! k * (if k = j then d ! k else 0)) [0..<?n]"
    using assms by (simp add: np_diag_def zip_map_upt)
  then have "sum_list (map2 (\<lambda>a row. a * row ! j) r (np_diag d))
        = (\<Sum>k = 0..<?n. r ! k * (if k = j then d ! k else 0))"
    by (simp add: interv_sum_list_conv_sum_set_nat)
  also have "\<dots> = (\<Sum>k = 0..<?n. if k = j then r ! j * d ! j else 0)"
    by (rule sum.cong) auto
  also have "\<dots> = r ! j * d ! j"
    using assms by simp
  finally show ?thesis .
qed

lemma matmul_vec_diag:
  "length r = length d \<Longrightarrow> matmul_vec_mat r (np_diag d) = map2 (*) r d"
  by (rule nth_equalityI) (simp_all add: matmul_vec_mat_def ncols_np_diag diag_column_sum)

lemma wrss_matmul_sum:
  "length r = length v_err \<Longrightarrow>
   wrss_matmul r v_err = sum_list (map2 (\<lambda>a e. a\<^sup>2 * e\<^sup>2) r v_err)"
proof (induction r v_err rule: list_induct2)
  case Nil
  then show ?case
    by (simp add: wrss_matmul_def matmul_vec_vec_def)
next
  case (Cons a r e es)
  then show ?case
    by (simp add: wrss_matmul_def matmul_vec_vec_def matmul_vec_diag np_square_def
        power2_eq_square)
qed

lemma WRSS_sum:
  assumes "length v_data = length v_err" and "length v_fwd = length v_err"
  shows "WRSS v_data v_err v_fwd
         = sum_list (map (\<lambda>(obs, e, mdl). (obs - mdl)\<^sup>2 * e\<^sup>2) (zip v_data (zip v_err v_fwd)))"
  using assms(1) assms(2) [symmetric]
proof (induction v_data v_err v_fwd rule: list_induct3)
  case Nil
  then show ?case by (simp add: WRSS_def wrss_matmul_sum np_subtract_def)
next
  case (Cons x xs y ys z zs)
  then show ?case by (simp add: WRSS_def wrss_matmul_sum np_subtract_def)
qed

subsection \<open>Forward model\<close>

lemma v_forward_map:
  "v_forward x_data s D v_shift = map (\<lambda>x. (s / pi) * arctan (x / D) + v_shift) x_data"
  by (simp add: v_forward_def np_add_def np_multiply_def np_arctan_def np_divide_def)

text \<open>
  C6. For a locking depth \<open>D \<noteq> 0\<close> the forward model, applied to an array of distances,
  returns the array of the same length whose entry at each position is
  \<open>(s/\<pi>) \<cdot> atan(x/D) + offset\<close> for the distance \<open>x\<close> at that position. The model is a function
  of its four arguments, so equal arguments give equal results. The grid search evaluates
  the same formula with offset \<open>0\<close> and takes the shift off the residual afterwards.
\<close>

theorem v_forward_pointwise:
  assumes "D \<noteq> 0"
  shows "v_forward x_data s D v_shift = map (\<lambda>x. forward_model_spec x s D v_shift) x_data
       \<and> length (v_forward x_data s D v_shift) = length x_data
       \<and> (\<forall>i<length x_data.
            v_forward x_data s D v_shift ! i = forward_model_spec (x_data ! i) s D v_shift)
       \<and> v_forward_unshifted x_data s D = map (\<lambda>x. forward_model_spec x s D 0) x_data"
  by (simp add: v_forward_map forward_model_spec_def v_forward_unshifted_def np_multiply_def
      np_arctan_def np_divide_def)

theorem v_forward_pointwise_witness:
  "(5::real) \<noteq> 0 \<and> v_forward [0, 5] 10 5 (- 25) = [- 25, - 45 / 2]
   \<and> length (v_forward [0, 5] 10 5 (- 25)) = 2"
  using v_forward_pointwise [of 5 "[0, 5]" 10 "- 25"]
  by (simp add: forward_model_spec_def arctan_one)

text \<open>
  C7. For \<open>D > 0\<close> the forward model is odd in the distance about the shift: negating every
  distance negates every prediction once the shift is taken off, and at distance \<open>0\<close> the
  prediction is the shift.
\<close>

theorem v_forward_odd_about_shift:
  assumes "0 < D"
  shows "np_subtract_scalar (v_forward (map uminus x_data) s D v_shift) v_shift
         = map uminus (np_subtract_scalar (v_forward x_data s D v_shift) v_shift)
       \<and> v_forward (replicate n 0) s D v_shift = replicate n v_shift"
  by (simp add: v_forward_map np_subtract_scalar_def arctan_minus map_replicate_const [symmetric] del: map_replicate_const)

theorem v_forward_odd_about_shift_witness:
  "(0::real) < 5 \<and> v_forward [- 5] 10 5 (- 25) = [- 55 / 2] \<and> v_forward [5] 10 5 (- 25) = [- 45 / 2]
   \<and> v_forward [0] 10 5 (- 25) = [- 25]"
  using v_forward_odd_about_shift [of 5 "[5]" 10 "- 25" 1]
  by (simp add: v_forward_map arctan_one arctan_minus)

subsection \<open>Misfit\<close>

text \<open>
  C9. For arrays of one length and errors that are all positive, the penalty is not
  negative, it is \<open>0\<close> exactly when the modelled velocities equal the observed ones at every
  station, and the penalty of the observations against themselves is \<open>0\<close>.
\<close>

theorem WRSS_nonneg_zero_iff_exact_fit:
  assumes "length v_data = length v_err" and "length v_fwd = length v_err"
    and "\<forall>e\<in>set v_err. 0 < e"
  shows "0 \<le> WRSS v_data v_err v_fwd
       \<and> (WRSS v_data v_err v_fwd = 0 \<longleftrightarrow> v_fwd = v_data)
       \<and> WRSS v_data v_err v_data = 0"
proof -
  let ?contrib = "\<lambda>(obs, e, mdl). (obs - mdl)\<^sup>2 * e\<^sup>2 :: real"
  have nonneg: "0 \<le> x" if "x \<in> set (map ?contrib (zip v_data (zip v_err v_fwd)))" for x
    using that by auto
  have zero_iff: "(\<forall>x\<in>set (map ?contrib (zip v_data (zip v_err v_fwd))). x = 0) \<longleftrightarrow> v_fwd = v_data"
    using assms(1) assms(2) [symmetric] assms(3)
  proof (induction v_data v_err v_fwd rule: list_induct3)
    case Nil
    then show ?case by simp
  next
    case (Cons x xs y ys z zs)
    then show ?case by auto
  qed
  have eq: "WRSS v_data v_err v_fwd = sum_list (map ?contrib (zip v_data (zip v_err v_fwd)))"
    using assms(1,2) by (rule WRSS_sum)
  have "0 \<le> WRSS v_data v_err v_fwd"
    unfolding eq by (rule sum_list_nonneg) (rule nonneg)
  moreover have "WRSS v_data v_err v_fwd = 0 \<longleftrightarrow> v_fwd = v_data"
    unfolding eq using nonneg zero_iff by (simp only: sum_list_nonneg_eq_0_iff)
  moreover have "WRSS v_data v_err v_data = 0"
    using assms(1)
    by (induction v_data v_err rule: list_induct2) (simp_all add: WRSS_sum)
  ultimately show ?thesis by simp
qed

theorem WRSS_nonneg_zero_iff_exact_fit_witness:
  "length [3, 4 :: real] = length [1, 2 :: real] \<and> length [3, 5 :: real] = length [1, 2 :: real]
   \<and> 0 < (1::real) \<and> 0 < (2::real)
   \<and> 0 \<le> WRSS [3, 4] [1, 2] [3, 5] \<and> WRSS [3, 4] [1, 2] [3, 5] \<noteq> 0
   \<and> WRSS [3, 4] [1, 2] [3, 4] = 0"
  using WRSS_nonneg_zero_iff_exact_fit [of "[3, 4]" "[1, 2]" "[3, 5]"]
  by simp

text \<open>
  C1. The penalty the notebook computes weights each squared residual by the variance
  \<open>\<sigma>\<^sup>2\<close>, not by \<open>1/\<sigma>\<^sup>2\<close>: for two stations with residual \<open>1\<close> and errors \<open>1\<close> and \<open>2\<close> it is
  \<open>5\<close> where the inverse-variance penalty is \<open>5/4\<close>, and the station with the larger error
  contributes \<open>4\<close>, the other \<open>1\<close>.
\<close>

theorem WRSS_weights_by_variance:
  "WRSS [1, 1] [1, 2] [0, 0] = 5 \<and> WRSS_spec [1, 1] [1, 2] [0, 0] = 5 / 4
   \<and> WRSS [1] [1] [0] = 1 \<and> WRSS [1] [2] [0] = 4"
  by (simp add: WRSS_sum WRSS_spec_def)

subsection \<open>Velocity projection\<close>

lemma dot_rows_map: "dot_rows rows uv = map (\<lambda>(a, b). a * fst uv + b * snd uv) rows"
  by (simp add: dot_rows_def matmul_vec_vec_def)

lemma v_data_of_map:
  "v_data_of sts uv = map (\<lambda>st. e_velocity st * fst uv + n_velocity st * snd uv) sts"
  by (simp add: v_data_of_def dot_rows_map comp_def)

lemma v_err_of_map:
  "v_err_of sts uv
   = map (\<lambda>st. sqrt ((e_vel_error st * fst uv)\<^sup>2 + (n_vel_error st * snd uv)\<^sup>2)) sts"
  by (induction sts)
     (simp_all add: v_err_of_def np_sqrt_def np_add_arrays_def np_square_def np_multiply_def
        mult.commute)

text \<open>
  C8. For every station the projected velocity is the dot product of its (east, north)
  velocity with the fault-parallel vector, and the propagated error is
  \<open>sqrt((e_err \<cdot> u\<^sub>e)\<^sup>2 + (n_err \<cdot> u\<^sub>n)\<^sup>2)\<close>; velocity \<open>(3, 4)\<close> along \<open>(1, 0)\<close> projects to \<open>3\<close>,
  and errors \<open>(0.1, 0.2)\<close> along \<open>(1, 0)\<close> propagate to \<open>0.1\<close>.
\<close>

theorem velocity_projection:
  "length (v_data_of sts uv) = length sts \<and> length (v_err_of sts uv) = length sts
   \<and> (\<forall>i<length sts.
         v_data_of sts uv ! i = e_velocity (sts ! i) * fst uv + n_velocity (sts ! i) * snd uv
       \<and> v_err_of sts uv ! i
         = sqrt ((e_vel_error (sts ! i) * fst uv)\<^sup>2 + (n_vel_error (sts ! i) * snd uv)\<^sup>2))
   \<and> (e_velocity st = 3 \<and> n_velocity st = 4 \<longrightarrow> v_data_of [st] (1, 0) = [3])
   \<and> (e_vel_error st = 1 / 10 \<and> n_vel_error st = 2 / 10 \<longrightarrow> v_err_of [st] (1, 0) = [1 / 10])"
proof -
  have "sqrt ((1 / 10)\<^sup>2) = \<bar>1 / 10 :: real\<bar>"
    by (rule real_sqrt_abs)
  then show ?thesis
    by (simp add: v_data_of_map v_err_of_map)
qed

theorem velocity_projection_witness:
  "v_data_of [\<lparr>longitude = 242, latitude = 34, e_velocity = 3, n_velocity = 4,
               e_vel_error = 1 / 10, n_vel_error = 2 / 10, correlation = 0\<rparr>] (1, 0) = [3]
   \<and> v_err_of [\<lparr>longitude = 242, latitude = 34, e_velocity = 3, n_velocity = 4,
               e_vel_error = 1 / 10, n_vel_error = 2 / 10, correlation = 0\<rparr>] (1, 0) = [1 / 10]"
  using velocity_projection [of "[\<lparr>longitude = 242, latitude = 34, e_velocity = 3, n_velocity = 4,
               e_vel_error = 1 / 10, n_vel_error = 2 / 10, correlation = 0\<rparr>]" "(1, 0)"
      "\<lparr>longitude = 242, latitude = 34, e_velocity = 3, n_velocity = 4,
               e_vel_error = 1 / 10, n_vel_error = 2 / 10, correlation = 0\<rparr>"]
  by simp

subsection \<open>Fault geometry\<close>

lemma sqrt_sum_squares_inverse:
  fixes a b :: real
  assumes "a\<^sup>2 + b\<^sup>2 = 1" and "b \<noteq> 0"
  shows "sqrt (1 + (a / b)\<^sup>2) = 1 / \<bar>b\<bar>"
proof -
  have "1 + (a / b)\<^sup>2 = (a\<^sup>2 + b\<^sup>2) / b\<^sup>2"
    using assms(2) by (simp add: power_divide add_divide_distrib)
  also have "\<dots> = (1 / \<bar>b\<bar>)\<^sup>2"
    using assms by (simp add: power_divide)
  finally show ?thesis
    by (simp only: real_sqrt_abs) simp
qed

lemma sin_cos_arctan2:
  assumes "a\<^sup>2 + b\<^sup>2 = 1"
  shows "sin (np_arctan2 a b) = a" and "cos (np_arctan2 a b) = b"
proof -
  consider (pos) "0 < b" | (neg) "b < 0" | (zero) "b = 0" by linarith
  then have "sin (np_arctan2 a b) = a \<and> cos (np_arctan2 a b) = b"
  proof cases
    case pos
    then show ?thesis
      using sqrt_sum_squares_inverse [OF assms, of] 
      by (simp add: np_arctan2_def sin_arctan cos_arctan)
  next
    case neg
    then show ?thesis
      using sqrt_sum_squares_inverse [OF assms]
      by (simp add: np_arctan2_def sin_arctan cos_arctan)
  next
    case zero
    with assms have "a\<^sup>2 = 1" by simp
    then have "a = 1 \<or> a = - 1" by (simp add: power2_eq_1_iff)
    with zero show ?thesis
      by (auto simp add: np_arctan2_def)
  qed
  then show "sin (np_arctan2 a b) = a" and "cos (np_arctan2 a b) = b" by simp_all
qed

lemma radians_degrees_minus_90: "np_radians (np_degrees t - 90) = t - pi / 2"
  by (simp add: np_radians_def np_degrees_def field_simps)

lemma prof_of_strike:
  "prof_dx (np_degrees t) = - cos t" "prof_dy (np_degrees t) = sin t"
  by (simp_all add: prof_dx_def prof_dy_def radians_degrees_minus_90 sin_diff cos_diff)

lemma fault_unit:
  assumes "fault_length (fault_geometry_of v1 v2) \<noteq> 0"
  shows "(fault_dx (fault_geometry_of v1 v2))\<^sup>2 + (fault_dy (fault_geometry_of v1 v2))\<^sup>2 = 1"
proof -
  let ?dx = "fst v2 - fst v1" and ?dy = "snd v2 - snd v1"
  let ?len = "sqrt (?dx\<^sup>2 + ?dy\<^sup>2)"
  have len: "?len \<noteq> 0"
    using assms by (simp add: fault_geometry_of_def Let_def)
  have "?len\<^sup>2 = ?dx\<^sup>2 + ?dy\<^sup>2"
    by simp
  then have "(?dx / ?len)\<^sup>2 + (?dy / ?len)\<^sup>2 = 1"
    using len by (simp add: power_divide add_divide_distrib [symmetric])
  then show ?thesis
    by (simp add: fault_geometry_of_def Let_def)
qed

lemma prof_is_fault_normal:
  assumes "fault_length (fault_geometry_of v1 v2) \<noteq> 0"
  shows "prof_dx (fault_strike (fault_geometry_of v1 v2)) = - fault_dy (fault_geometry_of v1 v2)"
    and "prof_dy (fault_strike (fault_geometry_of v1 v2)) = fault_dx (fault_geometry_of v1 v2)"
proof -
  let ?g = "fault_geometry_of v1 v2"
  have strike: "fault_strike ?g = np_degrees (np_arctan2 (fault_dx ?g) (fault_dy ?g))"
    by (simp add: fault_geometry_of_def Let_def)
  note unit = fault_unit [OF assms]
  show "prof_dx (fault_strike ?g) = - fault_dy ?g"
    by (simp only: strike prof_of_strike sin_cos_arctan2 [OF unit])
  show "prof_dy (fault_strike ?g) = fault_dx ?g"
    by (simp only: strike prof_of_strike sin_cos_arctan2 [OF unit])
qed

text \<open>
  C10. When the two fault vertices are distinct (the fault length is not \<open>0\<close>), the
  fault-parallel vector and the profile vector each have Euclidean length \<open>1\<close>, and their
  dot product is \<open>0\<close>.
\<close>

theorem fault_and_profile_orthonormal:
  assumes "fault_length (fault_geometry_of v1 v2) \<noteq> 0"
  shows "(fault_dx (fault_geometry_of v1 v2))\<^sup>2 + (fault_dy (fault_geometry_of v1 v2))\<^sup>2 = 1
       \<and> (prof_dx (fault_strike (fault_geometry_of v1 v2)))\<^sup>2
         + (prof_dy (fault_strike (fault_geometry_of v1 v2)))\<^sup>2 = 1
       \<and> fault_dx (fault_geometry_of v1 v2) * prof_dx (fault_strike (fault_geometry_of v1 v2))
         + fault_dy (fault_geometry_of v1 v2) * prof_dy (fault_strike (fault_geometry_of v1 v2)) = 0"
  using fault_unit [OF assms]
  by (simp add: prof_is_fault_normal [OF assms] add.commute)

lemma fault_3000_4000:
  "fault_geometry_of (0, 0) (3000, 4000)
   = \<lparr>fault_dx = 3 / 5, fault_dy = 4 / 5, fault_length = 5000,
      fault_strike = np_degrees (np_arctan2 (3 / 5) (4 / 5))\<rparr>"
proof -
  have "sqrt ((3000::real)\<^sup>2 + 4000\<^sup>2) = sqrt (5000\<^sup>2)"
    by simp
  also have "\<dots> = \<bar>5000\<bar>"
    by (rule real_sqrt_abs)
  finally have "sqrt ((3000::real)\<^sup>2 + 4000\<^sup>2) = 5000"
    by simp
  then show ?thesis
    by (simp add: fault_geometry_of_def Let_def)
qed

theorem fault_and_profile_orthonormal_witness:
  "fault_length (fault_geometry_of (0, 0) (3000, 4000)) \<noteq> 0
   \<and> fault_dx (fault_geometry_of (0, 0) (3000, 4000)) = 3 / 5
   \<and> fault_dy (fault_geometry_of (0, 0) (3000, 4000)) = 4 / 5
   \<and> (prof_dx (fault_strike (fault_geometry_of (0, 0) (3000, 4000))))\<^sup>2
     + (prof_dy (fault_strike (fault_geometry_of (0, 0) (3000, 4000))))\<^sup>2 = 1
   \<and> 3 / 5 * prof_dx (fault_strike (fault_geometry_of (0, 0) (3000, 4000)))
     + 4 / 5 * prof_dy (fault_strike (fault_geometry_of (0, 0) (3000, 4000))) = 0"
proof -
  have len: "fault_length (fault_geometry_of (0, 0) (3000, 4000)) \<noteq> 0"
    by (simp add: fault_3000_4000)
  from fault_and_profile_orthonormal [OF len] len show ?thesis
    by (simp add: fault_3000_4000)
qed

subsection \<open>Station distances along the profile\<close>

lemma profile_origin_is_midpoint:
  "profile_origin_utm (prof_vertices_utm (box_vertices_utm v1 v2 half_length pdx pdy))
   = (mean2 (fst v1) (fst v2), mean2 (snd v1) (snd v2))"
  unfolding profile_origin_utm_def prof_vertices_utm_def box_vertices_utm_def mean2_def
  by (simp add: field_simps)

lemma x_data_of_fault_normal:
  assumes "fault_length (fault_geometry_of v1 v2) \<noteq> 0"
  shows "x_data_of v1 v2 half_length selected_gnss_utm
         = map (\<lambda>(e, n). ((e - mean2 (fst v1) (fst v2)) * (- fault_dy (fault_geometry_of v1 v2))
                         + (n - mean2 (snd v1) (snd v2)) * fault_dx (fault_geometry_of v1 v2)) / 1000)
             selected_gnss_utm"
  by (simp add: x_data_of_def Let_def profile_origin_is_midpoint prof_is_fault_normal [OF assms]
      gnss_position_def dot_rows_map np_divide_def comp_def case_prod_unfold)

lemma endpoint_distance_zero:
  assumes "fault_length (fault_geometry_of v1 v2) \<noteq> 0"
  shows "x_data_of v1 v2 half_length [v1] = [0]" and "x_data_of v1 v2 half_length [v2] = [0]"
proof -
  let ?dx = "fst v2 - fst v1" and ?dy = "snd v2 - snd v1"
  let ?len = "sqrt (?dx\<^sup>2 + ?dy\<^sup>2)"
  have g: "fault_dx (fault_geometry_of v1 v2) = ?dx / ?len"
    "fault_dy (fault_geometry_of v1 v2) = ?dy / ?len"
    by (simp_all add: fault_geometry_of_def Let_def)
  have len: "?len \<noteq> 0"
    using assms by (simp add: fault_geometry_of_def Let_def)
  have a: "(fst v1 - mean2 (fst v1) (fst v2)) * (- (?dy / ?len))
      + (snd v1 - mean2 (snd v1) (snd v2)) * (?dx / ?len) = 0"
    using len by (simp add: mean2_def field_simps)
  have b: "(fst v2 - mean2 (fst v1) (fst v2)) * (- (?dy / ?len))
      + (snd v2 - mean2 (snd v1) (snd v2)) * (?dx / ?len) = 0"
    using len by (simp add: mean2_def field_simps)
  show "x_data_of v1 v2 half_length [v1] = [0]"
    using a by (simp add: x_data_of_fault_normal [OF assms] g case_prod_unfold)
  show "x_data_of v1 v2 half_length [v2] = [0]"
    using b by (simp add: x_data_of_fault_normal [OF assms] g case_prod_unfold)
qed

text \<open>
  C3, as the notebook computes it. The profile origin is the midpoint of the fault
  segment. For a fault of nonzero length, a station's distance is the dot product of its
  position relative to that origin with the unit profile vector, which is the fault-normal
  vector \<open>(-fault_dy, fault_dx)\<close>, divided by \<open>1000\<close> (kilometres). A station at either fault
  vertex therefore has distance \<open>0\<close>.
\<close>

theorem profile_distance_along_fault_normal:
  assumes "fault_length (fault_geometry_of v1 v2) \<noteq> 0"
  shows "profile_origin_utm (prof_vertices_utm (box_vertices_utm v1 v2 half_length
            (prof_dx (fault_strike (fault_geometry_of v1 v2)))
            (prof_dy (fault_strike (fault_geometry_of v1 v2)))))
         = ((fst v1 + fst v2) / 2, (snd v1 + snd v2) / 2)
       \<and> x_data_of v1 v2 half_length selected_gnss_utm
         = map (\<lambda>(e, n). ((e - (fst v1 + fst v2) / 2) * (- fault_dy (fault_geometry_of v1 v2))
                         + (n - (snd v1 + snd v2) / 2) * fault_dx (fault_geometry_of v1 v2)) / 1000)
             selected_gnss_utm
       \<and> x_data_of v1 v2 half_length [v1] = [0]
       \<and> x_data_of v1 v2 half_length [v2] = [0]"
  using x_data_of_fault_normal [OF assms, of half_length selected_gnss_utm]
    endpoint_distance_zero [OF assms, of half_length]
  by (simp add: profile_origin_is_midpoint mean2_def)

theorem profile_distance_along_fault_normal_witness:
  "fault_length (fault_geometry_of (0, 0) (3000, 4000)) \<noteq> 0
   \<and> x_data_of (0, 0) (3000, 4000) 50 [(- 2500, 5000), (5500, - 1000), (1500, 2000)] = [5, - 5, 0]
   \<and> x_data_of (0, 0) (3000, 4000) 50 [(0, 0)] = [0]"
proof -
  have len: "fault_length (fault_geometry_of (0, 0) (3000, 4000)) \<noteq> 0"
    by (simp add: fault_3000_4000)
  from profile_distance_along_fault_normal [OF len, of 50 "[(- 2500, 5000), (5500, - 1000), (1500, 2000)]"]
    len show ?thesis
    by (simp add: fault_3000_4000)
qed

text \<open>
  For the fault from \<open>(0, 0)\<close> to \<open>(3000, 4000)\<close>, a station at the second vertex has
  distance \<open>0\<close>; half the fault length is \<open>2500\<close>, which is what the dot product with the
  fault-parallel vector would give.
\<close>

theorem endpoint_distance_counterexample:
  "x_data_of (0, 0) (3000, 4000) 50 [(3000, 4000)] = [0]
   \<and> fault_length (fault_geometry_of (0, 0) (3000, 4000)) / 2 = 2500
   \<and> dot_rows (gnss_position [(3000, 4000)] (1500, 2000))
        (fault_dx (fault_geometry_of (0, 0) (3000, 4000)),
         fault_dy (fault_geometry_of (0, 0) (3000, 4000))) = [2500]"
proof -
  have len: "fault_length (fault_geometry_of (0, 0) (3000, 4000)) \<noteq> 0"
    by (simp add: fault_3000_4000)
  show ?thesis
    by (simp add: x_data_of_fault_normal [OF len] fault_3000_4000 mean2_def gnss_position_def
        dot_rows_map)
qed

subsection \<open>The loops fill the penalty surface\<close>

lemma grid_indices_product: "grid_indices n m = List.product [0..<n] [0..<m]"
  by (simp add: grid_indices_def product_concat_map)

lemma length_grid_indices: "length (grid_indices n m) = n * m"
  by (simp add: grid_indices_product)

lemma set_grid_indices: "set (grid_indices n m) = {(i, j). i < n \<and> j < m}"
  by (auto simp add: grid_indices_product)

lemma distinct_grid_indices: "distinct (grid_indices n m)"
  by (simp add: grid_indices_product distinct_product)

lemma grid_indices_Suc: "grid_indices (Suc n) m = grid_indices n m @ map (Pair n) [0..<m]"
  by (simp add: grid_indices_def)

lemma fill_row:
  assumes "i < length W" and "k \<le> length (W ! i)"
  shows "fold (\<lambda>(i, j) W. set_cell W i j (f i j)) (map (Pair i) [0..<k]) W
         = W[i := map (f i) [0..<k] @ drop k (W ! i)]"
  using assms(2)
proof (induction k)
  case 0
  then show ?case by simp
next
  case (Suc k)
  then have k: "k < length (W ! i)" by simp
  let ?done = "map (f i) [0..<k]"
  have d: "drop k (W ! i) = W ! i ! k # drop (Suc k) (W ! i)"
    using k by (simp add: Cons_nth_drop_Suc)
  have "(?done @ drop k (W ! i))[k := f i k] = ?done @ (drop k (W ! i))[0 := f i k]"
    by (simp add: list_update_append)
  also have "\<dots> = map (f i) [0..<Suc k] @ drop (Suc k) (W ! i)"
    by (simp add: d)
  finally have upd: "(?done @ drop k (W ! i))[k := f i k]
      = map (f i) [0..<Suc k] @ drop (Suc k) (W ! i)" .
  show ?case
    using Suc assms(1) upd by (simp add: set_cell_def)
qed

lemma fill_rows:
  assumes "k \<le> length W" and "\<forall>i<length W. length (W ! i) = m"
  shows "fold (\<lambda>(i, j) W. set_cell W i j (f i j)) (grid_indices k m) W
         = map (\<lambda>i. map (f i) [0..<m]) [0..<k] @ drop k W"
  using assms(1)
proof (induction k)
  case 0
  then show ?case by (simp add: grid_indices_def)
next
  case (Suc k)
  then have k: "k < length W" by simp
  have d: "drop k W = W ! k # drop (Suc k) W"
    using k by (simp add: Cons_nth_drop_Suc)
  let ?W = "map (\<lambda>i. map (f i) [0..<m]) [0..<k] @ drop k W"
  have row: "?W ! k = W ! k"
    using k by (simp add: nth_append)
  have len: "k < length ?W" "m \<le> length (?W ! k)"
    using k assms(2) by (simp_all add: nth_append)
  have "fold (\<lambda>(i, j) W. set_cell W i j (f i j)) (grid_indices (Suc k) m) W
        = fold (\<lambda>(i, j) W. set_cell W i j (f i j)) (map (Pair k) [0..<m]) ?W"
    using Suc by (simp add: grid_indices_Suc)
  also have "\<dots> = ?W[k := map (f k) [0..<m] @ drop m (?W ! k)]"
    using len by (rule fill_row)
  also have "\<dots> = ?W[k := map (f k) [0..<m]]"
    using k assms(2) by (simp add: row)
  also have "\<dots> = map (\<lambda>i. map (f i) [0..<m]) [0..<k] @ (drop k W)[0 := map (f k) [0..<m]]"
    by (simp add: list_update_append)
  also have "\<dots> = map (\<lambda>i. map (f i) [0..<m]) [0..<Suc k] @ drop (Suc k) W"
    by (simp add: d)
  finally show ?case .
qed

lemma map_upt_nth: "map (\<lambda>i. g (xs ! i)) [0..<length xs] = map g xs"
  by (rule nth_equalityI) simp_all

lemma penalty_surface_cells:
  "penalty_surface x_data v_data v_err s_set D_set
   = map (\<lambda>D. map (\<lambda>s. grid_cell x_data v_data v_err s D) s_set) D_set"
proof -
  let ?n = "length D_set" and ?m = "length s_set"
  let ?f = "\<lambda>i j. grid_cell x_data v_data v_err
      (map (\<lambda>_. s_set) D_set ! i ! j) (map (\<lambda>D. map (\<lambda>_. D) s_set) D_set ! i ! j)"
  have "penalty_surface x_data v_data v_err s_set D_set
        = fold (\<lambda>(i, j) W. set_cell W i j (?f i j)) (grid_indices ?n ?m) (np_zeros ?n ?m)"
    by (simp add: penalty_surface_def np_meshgrid_def Let_def)
  also have "\<dots> = map (\<lambda>i. map (?f i) [0..<?m]) [0..<?n] @ drop ?n (np_zeros ?n ?m)"
    by (rule fill_rows) (simp_all add: np_zeros_def)
  also have "\<dots> = map (\<lambda>i. map (?f i) [0..<?m]) [0..<?n]"
    by (simp add: np_zeros_def)
  also have "\<dots> = map (\<lambda>i. map (\<lambda>j. grid_cell x_data v_data v_err (s_set ! j) (D_set ! i)) [0..<?m])
      [0..<?n]"
    by simp
  also have "\<dots> = map (\<lambda>i. map (\<lambda>s. grid_cell x_data v_data v_err s (D_set ! i)) s_set)
      [0..<?n]"
    by (simp only: map_upt_nth [of "\<lambda>s. grid_cell x_data v_data v_err s D" for D])
  also have "\<dots> = map (\<lambda>D. map (\<lambda>s. grid_cell x_data v_data v_err s D) s_set) D_set"
    by (rule map_upt_nth [of "\<lambda>D. map (\<lambda>s. grid_cell x_data v_data v_err s D) s_set"])
  finally show ?thesis .
qed

subsection \<open>The best model\<close>

lemma np_amin_Min: "concat W \<noteq> [] \<Longrightarrow> np_amin W = Inr (Min (set (concat W)))"
  by (cases "concat W") (simp_all add: np_amin_def Min.set_eq_fold [symmetric] del: set_concat)

lemma filter_only_one:
  assumes "distinct xs" and "a \<in> set xs" and "\<forall>x\<in>set xs. P x \<longleftrightarrow> x = a"
  shows "filter P xs = [a]"
  using assms
proof (induction xs)
  case Nil
  then show ?case by simp
next
  case (Cons x xs)
  show ?case
  proof (cases "x = a")
    case True
    with Cons.prems have "\<forall>y\<in>set xs. \<not> P y" by auto
    then have "filter P xs = []" by (simp add: filter_empty_conv)
    with True Cons.prems show ?thesis by simp
  next
    case False
    with Cons show ?thesis by auto
  qed
qed

lemma surface_nth:
  assumes "i < length D_set" and "j < length s_set"
  shows "penalty_surface x_data v_data v_err s_set D_set ! i ! j
         = grid_cell x_data v_data v_err (s_set ! j) (D_set ! i)"
  using assms by (simp add: penalty_surface_cells)

lemma surface_shape:
  "length (penalty_surface x_data v_data v_err s_set D_set) = length D_set"
  "row \<in> set (penalty_surface x_data v_data v_err s_set D_set) \<Longrightarrow> length row = length s_set"
  by (auto simp add: penalty_surface_cells)

lemma surface_ncols:
  "D_set \<noteq> [] \<Longrightarrow> ncols (penalty_surface x_data v_data v_err s_set D_set) = length s_set"
  by (cases D_set) (simp_all add: penalty_surface_cells ncols_def)

lemma surface_values:
  "set (concat (penalty_surface x_data v_data v_err s_set D_set))
   = (\<lambda>(D, s). grid_cell x_data v_data v_err s D) ` (set D_set \<times> set s_set)"
  by (auto simp add: penalty_surface_cells)

lemma search_grid_unique_minimum:
  assumes i0: "i0 < length D_set" and j0: "j0 < length s_set"
    and strict: "\<forall>i<length D_set. \<forall>j<length s_set. (i, j) \<noteq> (i0, j0) \<longrightarrow>
        penalty_surface x_data v_data v_err s_set D_set ! i0 ! j0
        < penalty_surface x_data v_data v_err s_set D_set ! i ! j"
  shows "search_grid x_data v_data v_err s_set D_set
         = Inr \<lparr>s_best = s_set ! j0, D_best = D_set ! i0,
                v_shift_best = np_mean (np_subtract v_data
                   (v_forward_unshifted x_data (s_set ! j0) (D_set ! i0))),
                WRSS_best = penalty_surface x_data v_data v_err s_set D_set ! i0 ! j0\<rparr>"
proof -
  let ?W = "penalty_surface x_data v_data v_err s_set D_set"
  let ?c = "\<lambda>i j. grid_cell x_data v_data v_err (s_set ! j) (D_set ! i)"
  have cell: "?W ! i ! j = ?c i j" if "i < length D_set" "j < length s_set" for i j
    using that by (rule surface_nth)
  have mem: "?c i0 j0 \<in> set (concat ?W)"
    unfolding surface_values using i0 j0 nth_mem by fastforce
  have nonempty: "concat ?W \<noteq> []"
  proof
    assume "concat ?W = []"
    then have "set (concat ?W) = {}" by (simp only: list.set)
    with mem show False by (metis empty_iff)
  qed
  have least: "?c i0 j0 \<le> y" if "y \<in> set (concat ?W)" for y
  proof -
    from that obtain D s where Ds: "D \<in> set D_set" "s \<in> set s_set"
      and y: "y = grid_cell x_data v_data v_err s D"
      unfolding surface_values by auto
    from Ds obtain i j where "i < length D_set" "D = D_set ! i" "j < length s_set" "s = s_set ! j"
      by (auto simp add: in_set_conv_nth)
    with y have ij: "i < length D_set" "j < length s_set" "y = ?c i j"
      by simp_all
    show ?thesis
    proof (cases "(i, j) = (i0, j0)")
      case True
      with ij show ?thesis by simp
    next
      case False
      with strict ij have "?W ! i0 ! j0 < ?W ! i ! j" by blast
      with ij i0 j0 show ?thesis by (simp add: cell)
    qed
  qed
  have "Min (set (concat ?W)) = ?c i0 j0"
    by (rule Min_eqI) (use mem least in simp_all)
  with nonempty have amin: "np_amin ?W = Inr (?W ! i0 ! j0)"
    using i0 j0 by (simp add: np_amin_Min cell)
  have D_nonempty: "D_set \<noteq> []" using i0 by auto
  have only: "\<forall>p\<in>set (grid_indices (length D_set) (length s_set)).
      (case p of (i, j) \<Rightarrow> ?W ! i ! j = ?W ! i0 ! j0) \<longleftrightarrow> p = (i0, j0)"
    using strict by (fastforce simp add: set_grid_indices)
  have "np_where_equal ?W (?W ! i0 ! j0)
        = filter (\<lambda>(i, j). ?W ! i ! j = ?W ! i0 ! j0) (grid_indices (length D_set) (length s_set))"
    by (simp add: np_where_equal_def surface_shape(1) surface_ncols [OF D_nonempty])
  also have "\<dots> = [(i0, j0)]"
    by (rule filter_only_one [OF distinct_grid_indices _ only])
       (use i0 j0 in \<open>simp add: set_grid_indices\<close>)
  finally have idx: "np_where_equal ?W (?W ! i0 ! j0) = [(i0, j0)]" .
  show ?thesis
    using i0 j0
    by (simp add: search_grid_def np_meshgrid_def best_model_def amin idx take_indices_def item_def)
qed

lemma shifted_residual:
  "np_subtract_scalar (np_subtract v_data fwd) c = np_subtract v_data (np_add fwd c)"
  by (rule nth_equalityI) (simp_all add: np_subtract_scalar_def np_subtract_def np_add_def)

lemma grid_cell_is_WRSS:
  assumes "v_data \<noteq> []" and "length x_data = length v_data"
  shows "grid_cell x_data v_data v_err s D
         = WRSS v_data v_err (v_forward x_data s D
             (sum_list (np_subtract v_data (v_forward_unshifted x_data s D)) / real (length v_data)))"
proof -
  let ?resid = "np_subtract v_data (v_forward_unshifted x_data s D)"
  have len: "length ?resid = length v_data"
    using assms(2)
    by (simp add: np_subtract_def v_forward_unshifted_def np_multiply_def np_arctan_def
        np_divide_def)
  with assms(1) have "?resid \<noteq> []" by auto
  then have "np_mean ?resid = Some (sum_list ?resid / real (length v_data))"
    by (simp add: np_mean_def len)
  then show ?thesis
    by (simp add: grid_cell_def Let_def shifted_residual WRSS_def v_forward_def
        v_forward_unshifted_def)
qed

text \<open>
  Where the minimum is attained once. For parameter arrays without a zero locking depth
  and a non-empty observation set (arrays of one length), when one cell's penalty is
  strictly below every other cell's, the search returns that cell's \<open>(s, D)\<close>, its penalty,
  which is the minimum of the penalty surface, and as offset the mean of the residuals
  \<open>v_data - v_forward\<close> of the unshifted model; every cell's penalty is the penalty of the
  model shifted by that cell's mean residual.
\<close>

theorem grid_search_returns_unique_minimum:
  assumes "i0 < length D_set" and "j0 < length s_set"
    and "v_data \<noteq> []" and "length x_data = length v_data" and "length v_err = length v_data"
    and "0 \<notin> set D_set"
    and "\<forall>i<length D_set. \<forall>j<length s_set. (i, j) \<noteq> (i0, j0) \<longrightarrow>
        penalty_surface x_data v_data v_err s_set D_set ! i0 ! j0
        < penalty_surface x_data v_data v_err s_set D_set ! i ! j"
  shows "search_grid x_data v_data v_err s_set D_set
         = Inr \<lparr>s_best = s_set ! j0, D_best = D_set ! i0,
                v_shift_best = Some (sum_list (np_subtract v_data
                   (v_forward_unshifted x_data (s_set ! j0) (D_set ! i0))) / real (length v_data)),
                WRSS_best = penalty_surface x_data v_data v_err s_set D_set ! i0 ! j0\<rparr>
       \<and> (\<forall>i<length D_set. \<forall>j<length s_set.
            penalty_surface x_data v_data v_err s_set D_set ! i0 ! j0
            \<le> penalty_surface x_data v_data v_err s_set D_set ! i ! j)
       \<and> (\<forall>i<length D_set. \<forall>j<length s_set.
            penalty_surface x_data v_data v_err s_set D_set ! i ! j
            = WRSS v_data v_err (v_forward x_data (s_set ! j) (D_set ! i)
                (sum_list (np_subtract v_data (v_forward_unshifted x_data (s_set ! j) (D_set ! i)))
                 / real (length v_data))))"
proof -
  let ?W = "penalty_surface x_data v_data v_err s_set D_set"
  let ?resid = "np_subtract v_data (v_forward_unshifted x_data (s_set ! j0) (D_set ! i0))"
  have "length ?resid = length v_data"
    using assms(4)
    by (simp add: np_subtract_def v_forward_unshifted_def np_multiply_def np_arctan_def
        np_divide_def)
  with assms(3) have mean: "np_mean ?resid = Some (sum_list ?resid / real (length v_data))"
    by (auto simp add: np_mean_def)
  have least: "?W ! i0 ! j0 \<le> ?W ! i ! j" if "i < length D_set" "j < length s_set" for i j
  proof (cases "(i, j) = (i0, j0)")
    case True
    then show ?thesis by simp
  next
    case False
    with assms(7) that have "?W ! i0 ! j0 < ?W ! i ! j" by blast
    then show ?thesis by simp
  qed
  have cells: "?W ! i ! j = WRSS v_data v_err (v_forward x_data (s_set ! j) (D_set ! i)
                (sum_list (np_subtract v_data (v_forward_unshifted x_data (s_set ! j) (D_set ! i)))
                 / real (length v_data)))"
    if "i < length D_set" "j < length s_set" for i j
    using that by (simp only: surface_nth grid_cell_is_WRSS [OF assms(3,4)])
  from search_grid_unique_minimum [OF assms(1,2,7)] mean least cells
  show ?thesis by simp
qed

subsection \<open>Worked grids\<close>

lemma py_round_of_int: "py_round (of_int k) = k"
  by (simp add: py_round_def)

lemma py_round_numeral [simp]: "py_round (numeral n) = numeral n" "py_round 1 = 1" "py_round 0 = 0"
  using py_round_of_int [of "numeral n"] py_round_of_int [of 1] py_round_of_int [of 0]
  by simp_all

lemma grid_cell_sum:
  assumes "length v_data = length v_err" and "length x_data = length v_err"
  shows "grid_cell x_data v_data v_err s D
    = (case np_mean (np_subtract v_data (v_forward_unshifted x_data s D)) of
         Some c \<Rightarrow> sum_list (map2 (\<lambda>r e. r\<^sup>2 * e\<^sup>2)
                     (np_subtract_scalar (np_subtract v_data (v_forward_unshifted x_data s D)) c) v_err)
       | None \<Rightarrow> 0)"
proof -
  let ?resid = "np_subtract v_data (v_forward_unshifted x_data s D)"
  have len: "length ?resid = length v_err"
    using assms
    by (simp add: np_subtract_def v_forward_unshifted_def np_multiply_def np_arctan_def
        np_divide_def)
  show ?thesis
  proof (cases "np_mean ?resid")
    case None
    then have "?resid = []" by (simp add: np_mean_def split: if_splits)
    with len None show ?thesis
      by (simp add: grid_cell_def Let_def wrss_matmul_sum)
  next
    case (Some c)
    with len show ?thesis
      by (simp add: grid_cell_def Let_def wrss_matmul_sum np_subtract_scalar_def)
  qed
qed

lemma v_forward_unshifted_map:
  "v_forward_unshifted x_data s D = map (\<lambda>x. (s / pi) * arctan (x / D)) x_data"
  by (simp add: v_forward_unshifted_def np_multiply_def np_arctan_def np_divide_def)

lemma example_surface:
  "penalty_surface [- 5, 5] [- 30, - 20] [1, 1] [10, 20] [5] = [[25 / 2, 0]]"
  by (simp add: penalty_surface_cells grid_cell_sum v_forward_unshifted_map np_subtract_def
      np_mean_def np_subtract_scalar_def arctan_one arctan_minus power2_eq_square)

lemma tie_surface:
  "penalty_surface [0] [1] [1] [10, 20] [5] = [[0, 0]]"
  by (simp add: penalty_surface_cells grid_cell_sum v_forward_unshifted_map np_subtract_def
      np_mean_def np_subtract_scalar_def)

theorem grid_search_returns_unique_minimum_witness:
  "search_grid [- 5, 5] [- 30, - 20] [1, 1] [10, 20] [5]
   = Inr \<lparr>s_best = 20, D_best = 5, v_shift_best = Some (- 25), WRSS_best = 0\<rparr>"
proof -
  have strict: "\<forall>i<length [5 :: real]. \<forall>j<length [10, 20 :: real]. (i, j) \<noteq> (0, 1) \<longrightarrow>
        penalty_surface [- 5, 5] [- 30, - 20] [1, 1] [10, 20] [5] ! 0 ! 1
        < penalty_surface [- 5, 5] [- 30, - 20] [1, 1] [10, 20] [5] ! i ! j"
    by (auto simp add: example_surface less_Suc_eq)
  have "search_grid [- 5, 5] [- 30, - 20] [1, 1] [10, 20] [5]
         = Inr \<lparr>s_best = [10, 20] ! 1, D_best = [5] ! 0,
                v_shift_best = Some (sum_list (np_subtract [- 30, - 20]
                   (v_forward_unshifted [- 5, 5] ([10, 20] ! 1) ([5] ! 0))) / real (length [- 30, - 20 :: real])),
                WRSS_best = penalty_surface [- 5, 5] [- 30, - 20] [1, 1] [10, 20] [5] ! 0 ! 1\<rparr>"
    using grid_search_returns_unique_minimum [of 0 "[5]" 1 "[10, 20]" "[- 30, - 20]" "[- 5, 5]" "[1, 1]",
        OF _ _ _ _ _ _ strict]
    by simp
  then show ?thesis
    by (simp add: example_surface v_forward_unshifted_map np_subtract_def arctan_one arctan_minus)
qed


subsection \<open>Rounding to float64\<close>

lemma py_round_ge_floor: "\<lfloor>x\<rfloor> \<le> py_round x"
  by (simp add: py_round_def Let_def)

lemma py_round_nonneg: "0 \<le> x \<Longrightarrow> 0 \<le> py_round x"
  using py_round_ge_floor [of x] by (simp add: order_trans [of 0 "\<lfloor>x\<rfloor>"])

lemma pow2_powr: "pow2 e = 2 powr of_int e"
  by (simp add: pow2_def powr_real_of_int inverse_eq_divide)

lemma pow2_pos: "0 < pow2 e"
  by (simp add: pow2_def)

lemma float64_quantum_pos: "0 < float64_quantum x"
  by (simp add: float64_quantum_def pow2_pos)

lemma float64_round_0 [simp]: "float64_round 0 = 0"
  by (simp add: float64_round_def)

lemma float64_round_nonneg: "0 \<le> x \<Longrightarrow> 0 \<le> float64_round x"
  using float64_quantum_pos [of x]
  by (simp add: float64_round_def py_round_nonneg)

lemma float64_exponent:
  assumes "pow2 e \<le> \<bar>x\<bar>" and "\<bar>x\<bar> < pow2 (e + 1)"
  shows "\<lfloor>log 2 \<bar>x\<bar>\<rfloor> = e"
proof -
  have "0 < \<bar>x\<bar>" using assms(1) pow2_pos [of e] by linarith
  then show ?thesis
    using assms by (simp add: floor_log_eq_powr_iff pow2_powr)
qed

lemma float64_round_value:
  assumes "pow2 e \<le> \<bar>x\<bar>" and "\<bar>x\<bar> < pow2 (e + 1)" and "- 1022 \<le> e"
  shows "float64_round x = of_int (py_round (x / pow2 (e - 52))) * pow2 (e - 52)"
proof -
  have "x \<noteq> 0" using assms(1) pow2_pos [of e] by auto
  moreover have "float64_quantum x = pow2 (e - 52)"
    using assms(3) by (simp add: float64_quantum_def float64_exponent [OF assms(1,2)])
  ultimately show ?thesis by (simp add: float64_round_def)
qed

lemma float64_round_exact:
  assumes "pow2 e \<le> \<bar>x\<bar>" and "\<bar>x\<bar> < pow2 (e + 1)" and "- 1022 \<le> e"
    and "x / pow2 (e - 52) = of_int m"
  shows "float64_round x = x"
proof -
  have "float64_round x = of_int m * pow2 (e - 52)"
    by (simp add: float64_round_value [OF assms(1,2,3)] assms(4) py_round_of_int)
  also have "\<dots> = x"
    using assms(4) pow2_pos [of "e - 52"] by (simp add: field_simps)
  finally show ?thesis .
qed

lemma float64_round_one_plus:
  assumes "0 \<le> q"
  shows "1 \<le> float64_round (1 + q)"
proof -
  let ?x = "1 + q"
  let ?e = "\<lfloor>log 2 \<bar>?x\<bar>\<rfloor>"
  have x: "1 \<le> ?x" "\<bar>?x\<bar> = ?x" using assms by simp_all
  then have "0 \<le> log 2 ?x" by simp
  then have e: "0 \<le> ?e" by (simp add: x)
  have low: "pow2 ?e \<le> ?x"
    using x floor_log_eq_powr_iff [of "?x" 2 ?e] by (simp add: pow2_powr)
  have quantum: "float64_quantum ?x = pow2 (?e - 52)"
    using e by (simp add: float64_quantum_def)
  have split: "pow2 ?e = 2 ^ 52 * pow2 (?e - 52)"
    by (simp add: pow2_powr powr_diff)
  have "of_int (2 ^ 52) \<le> ?x / pow2 (?e - 52)"
    using low pow2_pos [of "?e - 52"] by (simp add: split field_simps)
  then have "2 ^ 52 \<le> \<lfloor>?x / pow2 (?e - 52)\<rfloor>"
    by (simp only: le_floor_iff)
  then have "2 ^ 52 \<le> py_round (?x / pow2 (?e - 52))"
    using py_round_ge_floor [of "?x / pow2 (?e - 52)"] by linarith
  then have "2 ^ 52 * pow2 (?e - 52) \<le> of_int (py_round (?x / pow2 (?e - 52))) * pow2 (?e - 52)"
    using pow2_pos [of "?e - 52"] by (simp add: of_int_le_iff [symmetric] del: of_int_le_iff)
  then have "pow2 ?e \<le> of_int (py_round (?x / pow2 (?e - 52))) * pow2 (?e - 52)"
    by (simp only: split)
  moreover have "1 \<le> pow2 ?e"
    using e by (simp add: pow2_def)
  ultimately have "1 \<le> of_int (py_round (?x / pow2 (?e - 52))) * pow2 (?e - 52)"
    by linarith
  then show ?thesis
    using x by (simp add: float64_round_def quantum)
qed

lemma float64_round_small_ints:
  "float64_round 1 = 1" "float64_round 2 = 2" "float64_round 10 = 10" "float64_round 30 = 30"
  "float64_round 60 = 60" "float64_round 61 = 61"
  by (rule float64_round_exact [of 0 _ "2 ^ 52"], simp_all add: pow2_def)
     (rule float64_round_exact [of 1 _ "2 ^ 52"], simp_all add: pow2_def,
      rule float64_round_exact [of 3 _ "10 * 2 ^ 49"], simp_all add: pow2_def,
      rule float64_round_exact [of 4 _ "30 * 2 ^ 48"], simp_all add: pow2_def,
      rule float64_round_exact [of 5 _ "60 * 2 ^ 47"], simp_all add: pow2_def,
      rule float64_round_exact [of 5 _ "61 * 2 ^ 47"], simp_all add: pow2_def)

lemma sample_count_steps:
  assumes "step \<noteq> 0"
    and "float64_round (hi - lo) = d" and "float64_round (d / step) = q"
    and "float64_round (1 + q) = r"
    and "\<bar>d\<bar> < 2 ^ 1024" and "\<bar>q\<bar> < 2 ^ 1024" and "\<bar>r\<bar> < 2 ^ 1024"
  shows "float64_expression lo hi step = Some r" and "sample_count lo hi step = Inr (py_round r)"
  using assms
  by (simp_all add: sample_count_def float64_expression_def float64_overflows_def Let_def
      del: power_numeral)

lemma sample_count_single: "step \<noteq> 0 \<Longrightarrow> sample_count lo lo step = Inr 1"
  using sample_count_steps(2) [of step lo lo 0 0 1]
  by (simp add: float64_round_small_ints)

lemma sample_count_10_20_10: "sample_count 10 20 10 = Inr 2"
  using sample_count_steps(2) [of 10 20 10 10 1 2]
  by (simp add: float64_round_small_ints)



lemma sample_count_10_40_7: "sample_count 10 40 7 = Inr 5"
proof -
  have "sample_count 10 40 7 = Inr (py_round (5951185221882441 / 2 ^ 50))"
  proof (rule sample_count_steps(2) [where d = 30 and q = "4825285315039817 / 2 ^ 50"])
    show "float64_round (40 - 10) = 30"
      by (simp add: float64_round_small_ints)
    show "float64_round (30 / 7) = 4825285315039817 / 2 ^ 50"
      by (subst float64_round_value [of 2]) (simp_all add: pow2_def py_round_def Let_def)
    show "float64_round (1 + 4825285315039817 / 2 ^ 50) = 5951185221882441 / 2 ^ 50"
      by (subst float64_round_value [of 2]) (simp_all add: pow2_def py_round_def Let_def)
  qed simp_all
  also have "py_round (5951185221882441 / 2 ^ 50) = 5"
    by (simp add: py_round_def Let_def)
  finally show ?thesis .
qed

text \<open>
  The float64 values nearest to \<open>1.1\<close>, \<open>6.65\<close> and \<open>0.1\<close>: the real value of
  \<open>1 + (6.65 - 1.1)/0.1\<close> on them is below \<open>56.5\<close>, the three rounded operations give
  \<open>56.50000000000001\<close>, and the count is \<open>57\<close>.
\<close>

lemma sample_count_rounded_above_half:
  "sample_count (2476979795053773 / 2 ^ 51) (3743617190251725 / 2 ^ 49) (3602879701896397 / 2 ^ 55)
   = Inr 57"
proof -
  have "sample_count (2476979795053773 / 2 ^ 51) (3743617190251725 / 2 ^ 49)
          (3602879701896397 / 2 ^ 55)
        = Inr (py_round (7951668092076033 / 2 ^ 47))"
  proof (rule sample_count_steps(2) [where d = "1562186120744141 / 2 ^ 48"
        and q = "7810930603720705 / 2 ^ 47"])
    show "float64_round (3743617190251725 / 2 ^ 49 - 2476979795053773 / 2 ^ 51)
      = 1562186120744141 / 2 ^ 48"
      by (subst float64_round_value [of 2]) (simp_all add: pow2_def py_round_def Let_def)
    show "float64_round (1562186120744141 / 2 ^ 48 / (3602879701896397 / 2 ^ 55))
      = 7810930603720705 / 2 ^ 47"
      by (subst float64_round_value [of 5]) (simp_all add: pow2_def py_round_def Let_def)
    show "float64_round (1 + 7810930603720705 / 2 ^ 47) = 7951668092076033 / 2 ^ 47"
      by (subst float64_round_value [of 5]) (simp_all add: pow2_def py_round_def Let_def)
  qed simp_all
  also have "py_round (7951668092076033 / 2 ^ 47) = 57"
    by (simp add: py_round_def Let_def)
  finally show ?thesis .
qed

lemma ranges_10_20_and_5:
  "parameter_ranges \<lparr>s_min = 10, s_max = 20, s_step = 10, D_min = 5, D_max = 5, D_step = 1\<rparr>
   = Inr ([10, 20], [5])"
  by (simp add: parameter_ranges_def sample_count_10_20_10 sample_count_single np_linspace_def
      upt_rec)

lemma grid_indices_1_2: "grid_indices (Suc 0) (Suc (Suc 0)) = [(0, 0), (0, 1)]"
  by (simp add: grid_indices_def upt_rec)

lemma grid_indices_2_1: "grid_indices (Suc (Suc 0)) (Suc 0) = [(0, 0), (1, 0)]"
  by (simp add: grid_indices_def upt_rec)


subsection \<open>Ties\<close>

text \<open>
  C2. The search returns the first minimal cell in row-major order when several cells
  attain the minimal penalty: the notebook does not. One station at distance \<open>0\<close> makes
  every cell's penalty \<open>0\<close>; on the grid of slip rates \<open>10, 20\<close> and locking depth \<open>5\<close> two
  cells attain the minimum, and the search ends in the ValueError of \<^verbatim>\<open>.item()\<close> instead of
  returning the first cell \<open>(10, 5)\<close>. So it does for two stations with equal velocities on
  the grid of slip rate \<open>0\<close> and locking depths \<open>5, 10\<close>.
\<close>

theorem grid_search_tie_raises:
  "parameter_ranges \<lparr>s_min = 10, s_max = 20, s_step = 10, D_min = 5, D_max = 5, D_step = 1\<rparr>
     = Inr ([10, 20], [5])
   \<and> penalty_surface [0] [1] [1] [10, 20] [5] = [[0, 0]]
   \<and> grid_search \<lparr>s_min = 10, s_max = 20, s_step = 10, D_min = 5, D_max = 5, D_step = 1\<rparr>
        [0] [1] [1] = Inl ValueError
   \<and> penalty_surface [- 5, 5] [1, 1] [1, 1] [0] [5, 10] = [[0], [0]]
   \<and> search_grid [- 5, 5] [1, 1] [1, 1] [0] [5, 10] = Inl ValueError"
proof -
  have surface: "penalty_surface [- 5, 5] [1, 1] [1, 1] [0] [5, 10] = [[0], [0]]"
    by (simp add: penalty_surface_cells grid_cell_sum v_forward_unshifted_map np_subtract_def
        np_mean_def np_subtract_scalar_def)
  show ?thesis
    by (simp add: ranges_10_20_and_5 grid_search_def search_grid_def np_meshgrid_def tie_surface
        surface best_model_def np_amin_def np_where_equal_def ncols_def grid_indices_1_2
        grid_indices_2_1 take_indices_def item_def Let_def)
qed

subsection \<open>Grid size\<close>

lemma counting_fold:
  "fold (\<lambda>(i, j) (W, n). (set_cell W i j (g i j), Suc n)) xs (W0, n0)
   = (fold (\<lambda>(i, j) W. set_cell W i j (g i j)) xs W0, n0 + length xs)"
  by (induction xs arbitrary: W0 n0) (simp_all add: case_prod_unfold)

lemma penalty_loop_surface:
  "penalty_loop x_data v_data v_err s_set D_set
   = (penalty_surface x_data v_data v_err s_set D_set, length s_set * length D_set)"
  by (simp add: penalty_loop_def penalty_surface_def np_meshgrid_def Let_def counting_fold
      length_grid_indices mult.commute)

lemma np_linspace_from_start:
  assumes "1 \<le> num"
  shows "\<exists>xs. np_linspace start stop num = Inr xs \<and> int (length xs) = num \<and> xs \<noteq> []
           \<and> xs ! 0 = start"
proof (cases "num = 1")
  case True
  then show ?thesis by (simp add: np_linspace_def)
next
  case False
  with assms have "0 < nat num" by simp
  then have "map (\<lambda>k. start + real k * ((stop - start) / of_int (num - 1))) [0..<nat num] ! 0
      = start"
    by (simp add: nth_map)
  with assms False show ?thesis
    by (simp add: np_linspace_def)
qed

lemma float64_expression_value:
  assumes "float64_expression lo hi step = Some r"
  shows "r = float64_round (1 + float64_round (float64_round (hi - lo) / step))"
  using assms by (simp add: float64_expression_def Let_def split: if_splits)

lemma sample_count_at_least_one:
  assumes "0 < step" and "lo \<le> hi" and "float64_expression lo hi step = Some r"
  shows "sample_count lo hi step = Inr (py_round r)" and "1 \<le> py_round r"
proof -
  show "sample_count lo hi step = Inr (py_round r)"
    using assms(1,3) by (simp add: sample_count_def)
  have "0 \<le> float64_round (hi - lo)"
    using assms(2) by (simp add: float64_round_nonneg)
  then have "0 \<le> float64_round (float64_round (hi - lo) / step)"
    using assms(1) by (simp add: float64_round_nonneg)
  then have "1 \<le> r"
    unfolding float64_expression_value [OF assms(3)] by (rule float64_round_one_plus)
  then have "1 \<le> \<lfloor>r\<rfloor>" by simp
  then show "1 \<le> py_round r"
    using py_round_ge_floor [of r] by linarith
qed

lemma parameter_ranges_succeed:
  assumes "0 < s_step c" and "s_min c \<le> s_max c" and "0 < D_step c" and "D_min c \<le> D_max c"
    and "float64_expression (s_min c) (s_max c) (s_step c) = Some r_s"
    and "float64_expression (D_min c) (D_max c) (D_step c) = Some r_D"
  shows "\<exists>s_set D_set. parameter_ranges c = Inr (s_set, D_set)
           \<and> int (length s_set) = py_round r_s \<and> int (length D_set) = py_round r_D
           \<and> D_set \<noteq> [] \<and> D_set ! 0 = D_min c"
proof -
  note s = sample_count_at_least_one [OF assms(1,2,5)]
  note D = sample_count_at_least_one [OF assms(3,4,6)]
  from np_linspace_from_start [OF s(2)] obtain s_set
    where s_set: "np_linspace (s_min c) (s_max c) (py_round r_s) = Inr s_set"
      "int (length s_set) = py_round r_s"
    by blast
  from np_linspace_from_start [OF D(2)] obtain D_set
    where D_set: "np_linspace (D_min c) (D_max c) (py_round r_D) = Inr D_set"
      "int (length D_set) = py_round r_D" "D_set \<noteq> []" "D_set ! 0 = D_min c"
    by blast
  have "parameter_ranges c = Inr (s_set, D_set)"
    by (simp add: parameter_ranges_def s(1) D(1) s_set(1) D_set(1))
  with s_set(2) D_set(2,3,4) show ?thesis by blast
qed

text \<open>
  C4, as the notebook computes it. For positive steps, ranges with \<open>min \<le> max\<close> and a
  positive \<open>D_min\<close>, where the float64 value of \<open>1 + (max - min)/step\<close> is finite, the
  parameter arrays have \<open>round(1 + (s_max - s_min)/s_step)\<close> slip rates and
  \<open>round(1 + (D_max - D_min)/D_step)\<close> locking depths: Python's rounding, a half to the even
  neighbour, of that float64 value. For station arrays of one length, the loops evaluate
  the penalty as many times as the product of the two counts, and every cell of the
  surface they leave is the penalty of its slip rate and locking depth.
\<close>

theorem grid_size_and_evaluations:
  assumes "0 < s_step c" and "s_min c \<le> s_max c"
    and "0 < D_step c" and "0 < D_min c" and "D_min c \<le> D_max c"
    and "float64_expression (s_min c) (s_max c) (s_step c) = Some r_s"
    and "float64_expression (D_min c) (D_max c) (D_step c) = Some r_D"
    and "length x_data = length v_data" and "length v_err = length v_data"
  shows "\<exists>s_set D_set W.
           parameter_ranges c = Inr (s_set, D_set)
         \<and> int (length s_set) = py_round r_s
         \<and> int (length D_set) = py_round r_D
         \<and> penalty_loop x_data v_data v_err s_set D_set = (W, length s_set * length D_set)
         \<and> length W = length D_set
         \<and> (\<forall>i<length D_set. length (W ! i) = length s_set
              \<and> (\<forall>j<length s_set.
                    W ! i ! j = grid_cell x_data v_data v_err (s_set ! j) (D_set ! i)))"
proof -
  from parameter_ranges_succeed [OF assms(1,2,3,5,6,7)] obtain s_set D_set
    where ranges: "parameter_ranges c = Inr (s_set, D_set)"
      and counts: "int (length s_set) = py_round r_s" "int (length D_set) = py_round r_D"
    by blast
  let ?W = "penalty_surface x_data v_data v_err s_set D_set"
  have "penalty_loop x_data v_data v_err s_set D_set = (?W, length s_set * length D_set)"
    by (rule penalty_loop_surface)
  moreover have "length ?W = length D_set"
    by (rule surface_shape)
  moreover have "\<forall>i<length D_set. length (?W ! i) = length s_set
      \<and> (\<forall>j<length s_set. ?W ! i ! j = grid_cell x_data v_data v_err (s_set ! j) (D_set ! i))"
    by (simp add: surface_nth) (simp add: penalty_surface_cells)
  ultimately show ?thesis
    using ranges counts by blast
qed

theorem grid_size_and_evaluations_witness:
  "parameter_ranges \<lparr>s_min = 10, s_max = 20, s_step = 10, D_min = 5, D_max = 5, D_step = 1\<rparr>
     = Inr ([10, 20], [5])
   \<and> snd (penalty_loop [- 5, 5] [- 30, - 20] [1, 1] [10, 20] [5]) = 2
   \<and> fst (penalty_loop [- 5, 5] [- 30, - 20] [1, 1] [10, 20] [5]) ! 0 ! 0 = 25 / 2
   \<and> fst (penalty_loop [- 5, 5] [- 30, - 20] [1, 1] [10, 20] [5]) ! 0 ! 1 = 0"
proof -
  let ?c = "\<lparr>s_min = 10, s_max = 20, s_step = 10, D_min = 5, D_max = 5, D_step = 1\<rparr>"
  have r_s: "float64_expression (s_min ?c) (s_max ?c) (s_step ?c) = Some 2"
    using sample_count_steps(1) [of 10 20 10 10 1 2] by (simp add: float64_round_small_ints)
  have r_D: "float64_expression (D_min ?c) (D_max ?c) (D_step ?c) = Some 1"
    using sample_count_steps(1) [of 1 5 5 0 0 1] by (simp add: float64_round_small_ints)
  have cells: "grid_cell [- 5, 5] [- 30, - 20] [1, 1] 10 5 = 25 / 2"
    "grid_cell [- 5, 5] [- 30, - 20] [1, 1] 20 5 = 0"
    by (simp_all add: grid_cell_sum v_forward_unshifted_map np_subtract_def np_mean_def
        np_subtract_scalar_def arctan_one arctan_minus power2_eq_square)
  from grid_size_and_evaluations [OF _ _ _ _ _ r_s r_D, of "[- 5, 5]" "[- 30, - 20]" "[1, 1]"]
  obtain s_set D_set W where ranges: "parameter_ranges ?c = Inr (s_set, D_set)"
    and loop: "penalty_loop [- 5, 5] [- 30, - 20] [1, 1] s_set D_set
        = (W, length s_set * length D_set)"
    and filled: "\<forall>i<length D_set. length (W ! i) = length s_set
        \<and> (\<forall>j<length s_set.
              W ! i ! j = grid_cell [- 5, 5] [- 30, - 20] [1, 1] (s_set ! j) (D_set ! i))"
    by auto
  from ranges have sets: "s_set = [10, 20]" "D_set = [5]"
    by (simp_all add: ranges_10_20_and_5)
  from filled have "W ! 0 ! 0 = 25 / 2" "W ! 0 ! 1 = 0"
    unfolding sets by (simp_all add: cells)
  with loop show ?thesis
    unfolding sets by (simp add: ranges_10_20_and_5)
qed

text \<open>
  Slip rates from \<open>10\<close> to \<open>40\<close> with step \<open>7\<close>: the notebook takes \<open>round(1 + 30/7) = 5\<close>
  values, spaced \<open>7.5\<close> apart, where \<open>\<lceil>30/7\<rceil> + 1 = 6\<close>.
\<close>

theorem grid_size_counterexample:
  "parameter_ranges \<lparr>s_min = 10, s_max = 40, s_step = 7, D_min = 5, D_max = 5, D_step = 1\<rparr>
     = Inr ([10, 35 / 2, 25, 65 / 2, 40], [5])
   \<and> \<lceil>(40 - 10) / 7 :: real\<rceil> + 1 = 6"
proof -
  have "[0..<5] = [0, 1, 2, 3, 4]"
    by (simp add: upt_rec)
  moreover have "\<lceil>(40 - 10) / 7 :: real\<rceil> + 1 = 6"
    by (simp add: ceiling_divide_eq_div_numeral)
  ultimately show ?thesis
    by (simp add: parameter_ranges_def sample_count_10_40_7 sample_count_single np_linspace_def)
qed

subsection \<open>What the grid search rejects\<close>












end
